theory Spec2Isabelle
  imports Complex_Main "HOL-Library.Option_ord" "HOL-Library.Multiset"
begin

section \<open>Python values and exceptions\<close>

text \<open>
  The exceptions the service can meet. \<open>CancelledError\<close> stands for the exceptions that
  derive from \<open>BaseException\<close> only (task cancellation, keyboard interrupt): a clause
  \<open>except Exception\<close> does not catch them, a \<open>finally\<close> block still runs.
  \<open>ToolError\<close> is whatever the external extractor raises, \<open>Exception msg\<close> a plain
  \<open>Exception(msg)\<close> raised by the service itself, and \<open>ErrorDownloading e\<close> the
  \<open>Exception\<close> of line 368, whose message is \<open>Error downloading video:\<close> followed by the
  text of the exception \<open>e\<close> it replaces.
\<close>

datatype error =
    KeyError
  | AttributeError
  | TypeError
  | ValueError
  | ValidationError
  | ToolError string
  | Exception string
  | ErrorDownloading error
  | CancelledError

fun is_Exception :: "error \<Rightarrow> bool" where
  "is_Exception CancelledError = False"
| "is_Exception _ = True"

text \<open>
  One key of a Python dictionary: the key is not there, it maps to \<open>None\<close>,
  or it maps to a value. \<open>d.get(k)\<close> does not tell the first two apart, \<open>d[k]\<close> does.
\<close>

datatype 'a field = Missing | Null | Val 'a

fun py_get :: "'a field \<Rightarrow> 'a option" where
  "py_get Missing = None"
| "py_get Null = None"
| "py_get (Val v) = Some v"

fun py_get_default :: "'a field \<Rightarrow> 'a \<Rightarrow> 'a option" where
  "py_get_default Missing dflt = Some dflt"
| "py_get_default Null dflt = None"
| "py_get_default (Val v) dflt = Some v"

fun py_index :: "'a field \<Rightarrow> error + 'a option" where
  "py_index Missing = Inl KeyError"
| "py_index Null = Inr None"
| "py_index (Val v) = Inr (Some v)"

text \<open>Truth value of an optional integer or string, as \<open>if x:\<close> tests it.\<close>

fun truthy_int :: "int option \<Rightarrow> bool" where
  "truthy_int None = False"
| "truthy_int (Some n) = (n \<noteq> 0)"

fun truthy_str :: "string option \<Rightarrow> bool" where
  "truthy_str None = False"
| "truthy_str (Some s) = (s \<noteq> [])"

text \<open>\<open>str(n)\<close> for an integer, as an f-string renders it.\<close>

fun str_nat :: "nat \<Rightarrow> string" where
  "str_nat n =
     (if n < 10 then [''0123456789'' ! n]
      else str_nat (n div 10) @ [''0123456789'' ! (n mod 10)])"

declare str_nat.simps [simp del]

definition py_str_int :: "int \<Rightarrow> string" where
  "py_str_int i = (if i < 0 then CHR ''-'' # str_nat (nat (- i)) else str_nat (nat i))"

text \<open>\<open>sep.join(parts)\<close>.\<close>

fun join :: "string \<Rightarrow> string list \<Rightarrow> string" where
  "join sep [] = []"
| "join sep [p] = p"
| "join sep (p # q # ps) = p @ sep @ join sep (q # ps)"

text \<open>\<open>s.endswith(suffix)\<close> and its form with a tuple of suffixes.\<close>

definition endswith :: "string \<Rightarrow> string \<Rightarrow> bool" where
  "endswith s suffix = (length suffix \<le> length s \<and> drop (length s - length suffix) s = suffix)"

definition endswith_any :: "string \<Rightarrow> string list \<Rightarrow> bool" where
  "endswith_any s suffixes = list_ex (endswith s) suffixes"

section \<open>The format selector of \<open>get_video_info\<close>\<close>

text \<open>
  A raw format record of the extractor, with the keys the service reads. Codecs,
  extension and identifier are strings, height, fps and file size integers, the total bitrate
  a number (a float that is not NaN).
\<close>

record raw_format =
  f_acodec :: "string field"
  f_vcodec :: "string field"
  f_ext :: "string field"
  f_height :: "int field"
  f_fps :: "int field"
  f_tbr :: "real field"
  f_filesize :: "int field"
  f_format_id :: "string field"

text \<open>The dictionary appended to \<open>formats\<close> (lines 96-104).\<close>

record FormatOption =
  format_id :: "string option"
  ext :: "string option"
  filesize :: "int option"
  format_note :: string
  tbr :: "real option"
  has_audio :: bool
  has_video :: bool

text \<open>The condition of lines 78-80.\<close>

definition keeps :: "raw_format \<Rightarrow> bool" where
  "keeps f =
     ((py_get (f_acodec f) \<noteq> Some ''none'' \<and> py_get (f_vcodec f) \<noteq> Some ''none'')
      \<or> (py_get (f_vcodec f) \<noteq> Some ''none'' \<and> py_get (f_ext f) = Some ''mp4'')
      \<or> (py_get (f_acodec f) \<noteq> Some ''none'' \<and> py_get (f_vcodec f) = Some ''none''))"

text \<open>The list \<open>format_note\<close> before it is joined (lines 82-94).\<close>

definition note_parts :: "raw_format \<Rightarrow> string list" where
  "note_parts f =
     (if truthy_int (py_get (f_height f))
      then [py_str_int (the (py_get (f_height f))) @ ''p''] else [])
     @ (if truthy_int (py_get (f_fps f))
        then [py_str_int (the (py_get (f_fps f))) @ ''fps''] else [])
     @ (if py_get (f_acodec f) \<noteq> Some ''none'' \<and> py_get (f_vcodec f) \<noteq> Some ''none''
        then [''video+audio'']
        else if py_get (f_acodec f) = Some ''none'' then [''video-only'']
        else if py_get (f_vcodec f) = Some ''none'' then [''audio-only'']
        else [])"

text \<open>
  The dictionary literal of lines 96-104: \<open>f['format_id']\<close> and \<open>f['ext']\<close> raise
  \<open>KeyError\<close> when the key is missing; the other keys are read with \<open>get\<close>.
\<close>

definition format_entry :: "raw_format \<Rightarrow> error + FormatOption" where
  "format_entry f =
     (case py_index (f_format_id f) of
        Inl e \<Rightarrow> Inl e
      | Inr fid \<Rightarrow>
          (case py_index (f_ext f) of
             Inl e \<Rightarrow> Inl e
           | Inr fext \<Rightarrow>
               Inr \<lparr> format_id = fid, ext = fext, filesize = py_get (f_filesize f),
                     format_note = join '' '' (note_parts f), tbr = py_get (f_tbr f),
                     has_audio = (py_get (f_acodec f) \<noteq> Some ''none''),
                     has_video = (py_get (f_vcodec f) \<noteq> Some ''none'') \<rparr>))"

text \<open>The loop of lines 72-104, \<open>formats\<close> being the list built so far.\<close>

fun collect_formats :: "FormatOption list \<Rightarrow> raw_format list \<Rightarrow> error + FormatOption list" where
  "collect_formats formats [] = Inr formats"
| "collect_formats formats (f # fs) =
     (if keeps f
      then (case format_entry f of
              Inl e \<Rightarrow> Inl e
            | Inr entry \<Rightarrow> collect_formats (formats @ [entry]) fs)
      else collect_formats formats fs)"

text \<open>
  Line 107: \<open>formats.sort(key=..., reverse=True)\<close>. The key of an entry without
  \<open>tbr\<close> is minus infinity, below every number: that is \<open>None\<close> in the order of
  \<open>real option\<close>, where \<open>None\<close> is the least element. Python's sort is stable, and with
  \<open>reverse=True\<close> it reverses the list, sorts it in ascending order and reverses the
  result, so that equal keys keep the order they came in.
\<close>

definition sort_key_tbr :: "FormatOption \<Rightarrow> real option" where
  "sort_key_tbr x = (case tbr x of None \<Rightarrow> None | Some t \<Rightarrow> Some t)"

definition sort_reverse :: "('a \<Rightarrow> 'k::linorder) \<Rightarrow> 'a list \<Rightarrow> 'a list" where
  "sort_reverse key xs = rev (sort_key key (rev xs))"

definition select_formats :: "raw_format list \<Rightarrow> error + FormatOption list" where
  "select_formats raws =
     (case collect_formats [] raws of
        Inl e \<Rightarrow> Inl e
      | Inr formats \<Rightarrow> Inr (sort_reverse sort_key_tbr formats))"

text \<open>
  The same entry without the two failing lookups: what \<open>format_entry\<close> returns when it
  returns.
\<close>

definition entry_of :: "raw_format \<Rightarrow> FormatOption" where
  "entry_of f =
     \<lparr> format_id = py_get (f_format_id f), ext = py_get (f_ext f),
       filesize = py_get (f_filesize f), format_note = join '' '' (note_parts f),
       tbr = py_get (f_tbr f),
       has_audio = (py_get (f_acodec f) \<noteq> Some ''none''),
       has_video = (py_get (f_vcodec f) \<noteq> Some ''none'') \<rparr>"

subsection \<open>The selector's rule in the words of the specification\<close>

text \<open>
  The extractor marks a stream that a format does not have with the codec \<open>none\<close>; this
  marker is the specification's absent codec. A codec key that is missing or \<open>None\<close>
  is not the marker (the extractor leaves a codec it does not know unset), and the code takes
  such a record as having the stream.
\<close>

definition codec_absent :: "string field \<Rightarrow> bool" where
  "codec_absent c = (py_get c = Some ''none'')"

definition inclusion_rule :: "raw_format \<Rightarrow> bool" where
  "inclusion_rule f =
     ((\<not> codec_absent (f_acodec f) \<and> \<not> codec_absent (f_vcodec f))
      \<or> (\<not> codec_absent (f_vcodec f) \<and> py_get (f_ext f) = Some ''mp4'')
      \<or> (\<not> codec_absent (f_acodec f) \<and> codec_absent (f_vcodec f)))"

text \<open>
  Non-increasing order of bitrates, a missing bitrate counting as minus infinity:
  \<open>tbr_ge a b\<close> says that \<open>a\<close> may stand before \<open>b\<close>.
\<close>

fun tbr_ge :: "real option \<Rightarrow> real option \<Rightarrow> bool" where
  "tbr_ge a None = True"
| "tbr_ge None (Some y) = False"
| "tbr_ge (Some x) (Some y) = (y \<le> x)"

text \<open>
  The stream composition of a record: combined, video-only (a video codec and no audio
  codec) or audio-only (an audio codec and no video codec).
\<close>

definition stream_label :: "raw_format \<Rightarrow> string" where
  "stream_label f =
     (if \<not> codec_absent (f_acodec f) \<and> \<not> codec_absent (f_vcodec f) then ''video+audio''
      else if \<not> codec_absent (f_vcodec f) then ''video-only''
      else ''audio-only'')"

text \<open>The format note as the specification composes it: a part for every value present.\<close>

definition note_of_present :: "raw_format \<Rightarrow> string" where
  "note_of_present f =
     join '' ''
       ((case py_get (f_height f) of None \<Rightarrow> [] | Some h \<Rightarrow> [py_str_int h @ ''p''])
        @ (case py_get (f_fps f) of None \<Rightarrow> [] | Some r \<Rightarrow> [py_str_int r @ ''fps''])
        @ [stream_label f])"

text \<open>The same with a part for every value present and not zero.\<close>

definition note_of_nonzero :: "raw_format \<Rightarrow> string" where
  "note_of_nonzero f =
     join '' ''
       ((case py_get (f_height f) of
           None \<Rightarrow> [] | Some h \<Rightarrow> if h = 0 then [] else [py_str_int h @ ''p''])
        @ (case py_get (f_fps f) of
             None \<Rightarrow> [] | Some r \<Rightarrow> if r = 0 then [] else [py_str_int r @ ''fps''])
        @ [stream_label f])"

section \<open>Data models (lines 8-48)\<close>

text \<open>
  The three classes derive from pydantic's \<open>BaseModel\<close>. A constructor call validates its
  keyword arguments: a field declared without a default is required, and a required field that is
  not given, or given as \<open>None\<close>, raises \<open>ValidationError\<close>; keyword arguments that are no
  field of the class are ignored. The constructors below take one optional value per declared
  field; \<open>None\<close> stands for an argument that the call does not pass or passes as \<open>None\<close>.
  Assigning to an attribute that is no declared field raises \<open>ValueError\<close>.
\<close>

record VideoInfo =
  v_id :: string
  v_title :: string
  v_duration :: int
  v_thumbnail :: string
  v_formats :: "FormatOption list"
  v_webpage_url :: string
  v_description :: "string option"
  v_view_count :: "int option"
  v_uploader :: "string option"
  v_playlist_index :: "int option"

definition VideoInfo_init ::
  "string option \<Rightarrow> string option \<Rightarrow> int option \<Rightarrow> string option \<Rightarrow> FormatOption list option
   \<Rightarrow> string option \<Rightarrow> string option \<Rightarrow> int option \<Rightarrow> string option \<Rightarrow> int option
   \<Rightarrow> error + VideoInfo" where
  "VideoInfo_init id' title' duration' thumbnail' formats' webpage_url'
       description' view_count' uploader' playlist_index' =
     (case (id', title', duration', thumbnail', formats', webpage_url') of
        (Some i, Some t, Some d, Some th, Some fs, Some w) \<Rightarrow>
          Inr \<lparr> v_id = i, v_title = t, v_duration = d, v_thumbnail = th, v_formats = fs,
                v_webpage_url = w, v_description = description', v_view_count = view_count',
                v_uploader = uploader', v_playlist_index = playlist_index' \<rparr>
      | _ \<Rightarrow> Inl ValidationError)"

record PlaylistInfo =
  pl_id :: string
  pl_title :: string
  pl_uploader :: "string option"
  pl_video_count :: int
  pl_videos :: "VideoInfo list"
  pl_webpage_url :: string

definition PlaylistInfo_init ::
  "string option \<Rightarrow> string option \<Rightarrow> string option \<Rightarrow> int option \<Rightarrow> VideoInfo list option
   \<Rightarrow> string option \<Rightarrow> error + PlaylistInfo" where
  "PlaylistInfo_init id' title' uploader' video_count' videos' webpage_url' =
     (case (id', title', video_count', videos', webpage_url') of
        (Some i, Some t, Some n, Some vs, Some w) \<Rightarrow>
          Inr \<lparr> pl_id = i, pl_title = t, pl_uploader = uploader', pl_video_count = n,
                pl_videos = vs, pl_webpage_url = w \<rparr>
      | _ \<Rightarrow> Inl ValidationError)"

record DownloadProgress =
  status :: string
  video_id :: string
  title :: string
  downloaded_bytes :: "int option"
  total_bytes :: "int option"
  speed :: "real option"
  eta :: "int option"
  filename :: "string option"
  playlist_index :: "int option"
  error_text :: "string option"
  fragment_index :: "int option"
  fragment_count :: "int option"

definition DownloadProgress_init ::
  "string option \<Rightarrow> string option \<Rightarrow> string option \<Rightarrow> int option \<Rightarrow> int option \<Rightarrow> real option
   \<Rightarrow> int option \<Rightarrow> string option \<Rightarrow> int option \<Rightarrow> string option \<Rightarrow> int option \<Rightarrow> int option
   \<Rightarrow> error + DownloadProgress" where
  "DownloadProgress_init status' video_id' title' downloaded_bytes' total_bytes' speed' eta'
       filename' playlist_index' error' fragment_index' fragment_count' =
     (case (status', video_id', title') of
        (Some s, Some v, Some t) \<Rightarrow>
          Inr \<lparr> status = s, video_id = v, title = t, downloaded_bytes = downloaded_bytes',
                total_bytes = total_bytes', speed = speed', eta = eta', filename = filename',
                playlist_index = playlist_index', error_text = error',
                fragment_index = fragment_index', fragment_count = fragment_count' \<rparr>
      | _ \<Rightarrow> Inl ValidationError)"

record BatchDownloadProgress =
  b_status :: string
  total_videos :: int
  completed_videos :: int
  current_video :: "DownloadProgress option"
  failed_videos :: "(string \<times> string) list"
  playlist_title :: "string option"

definition BatchDownloadProgress_init ::
  "string option \<Rightarrow> int option \<Rightarrow> int option \<Rightarrow> DownloadProgress option
   \<Rightarrow> (string \<times> string) list option \<Rightarrow> string option \<Rightarrow> error + BatchDownloadProgress" where
  "BatchDownloadProgress_init status' total_videos' completed_videos' current_video'
       failed_videos' playlist_title' =
     (case (status', total_videos', completed_videos') of
        (Some s, Some n, Some c) \<Rightarrow>
          Inr \<lparr> b_status = s, total_videos = n, completed_videos = c,
                current_video = current_video',
                failed_videos = (case failed_videos' of None \<Rightarrow> [] | Some fs \<Rightarrow> fs),
                playlist_title = playlist_title' \<rparr>
      | _ \<Rightarrow> Inl ValidationError)"

definition BatchDownloadProgress_fields :: "string list" where
  "BatchDownloadProgress_fields =
     [''status'', ''total_videos'', ''completed_videos'', ''current_video'',
      ''failed_videos'', ''playlist_title'']"

definition pydantic_setattr :: "string list \<Rightarrow> string \<Rightarrow> error + unit" where
  "pydantic_setattr declared name = (if name \<in> set declared then Inr () else Inl ValueError)"

section \<open>\<open>get_video_info\<close> (lines 56-123)\<close>

text \<open>
  The record \<open>extract_info\<close> returns for one video, with the keys the service reads.
  The extractor is outside the repository: its answer (an exception, nothing, or a record) is
  the function's input.
\<close>

record info_dict =
  i_id :: "string field"
  i_title :: "string field"
  i_duration :: "int field"
  i_thumbnail :: "string field"
  i_formats :: "raw_format list field"
  i_webpage_url :: "string field"
  i_description :: "string field"
  i_view_count :: "int field"
  i_uploader :: "string field"

text \<open>
  The record stands for the dictionary as far as the service reads it: the record with none of
  the keys is the empty dictionary, which the test \<open>if not info\<close> of line 68 takes like
  \<open>None\<close>.
\<close>

definition info_is_empty :: "info_dict \<Rightarrow> bool" where
  "info_is_empty info =
     (i_id info = Missing \<and> i_title info = Missing \<and> i_duration info = Missing
      \<and> i_thumbnail info = Missing \<and> i_formats info = Missing
      \<and> i_webpage_url info = Missing \<and> i_description info = Missing
      \<and> i_view_count info = Missing \<and> i_uploader info = Missing)"

definition get_video_info :: "error + info_dict option \<Rightarrow> int option \<Rightarrow> error + VideoInfo" where
  "get_video_info extracted playlist_index' =
     (case extracted of
        Inl e \<Rightarrow> Inl e
      | Inr None \<Rightarrow> Inl (Exception ''No video information found'')
      | Inr (Some info) \<Rightarrow>
          if info_is_empty info then Inl (Exception ''No video information found'')
          else
          (case py_get_default (i_formats info) [] of
             None \<Rightarrow> Inl TypeError
           | Some raws \<Rightarrow>
               (case select_formats raws of
                  Inl e \<Rightarrow> Inl e
                | Inr formats \<Rightarrow>
                    (case py_index (i_id info) of
                       Inl e \<Rightarrow> Inl e
                     | Inr id' \<Rightarrow>
                         VideoInfo_init id' (py_get (i_title info)) (py_get (i_duration info))
                           (py_get (i_thumbnail info)) (Some formats)
                           (py_get (i_webpage_url info)) (py_get (i_description info))
                           (py_get (i_view_count info)) (py_get (i_uploader info))
                           playlist_index'))))"

section \<open>The progress hook (lines 252-302)\<close>

text \<open>
  A status dictionary that the extractor passes to a progress hook, with the keys the hook reads.
  Under \<open>info_dict\<close> the extractor passes the metadata dictionary of the video, whose
  identifier is a string; the field is \<open>None\<close> when the dictionary has no such key.
\<close>

record hook_event =
  d_status :: "string field"
  d_info_dict :: "info_dict option"
  d_filename :: "string field"
  d_downloaded_bytes :: "int field"
  d_total_bytes :: "int field"
  d_total_bytes_estimate :: "int field"
  d_speed :: "real field"
  d_eta :: "int field"
  d_fragment_index :: "int field"
  d_fragment_count :: "int field"

text \<open>The empty dictionary \<open>{}\<close> that \<open>d.get('info_dict', {})\<close> falls back to.\<close>

definition empty_info :: info_dict where
  "empty_info =
     \<lparr> i_id = Missing, i_title = Missing, i_duration = Missing, i_thumbnail = Missing,
       i_formats = Missing, i_webpage_url = Missing, i_description = Missing,
       i_view_count = Missing, i_uploader = Missing \<rparr>"

text \<open>
  A consumer's callback: called with a progress snapshot, it returns (\<open>None\<close>) or raises.
  The registry \<open>progress_callbacks\<close> maps video identifiers to callbacks.
\<close>

type_synonym callback = "DownloadProgress \<Rightarrow> error option"

type_synonym registry = "string \<rightharpoonup> callback"

text \<open>\<open>a or b\<close> on optional integers.\<close>

definition py_or :: "int option \<Rightarrow> int option \<Rightarrow> int option" where
  "py_or a b = (if truthy_int a then a else b)"

text \<open>\<open>d.get('info_dict', {})\<close>, and with it line 254, \<open>d.get('info_dict', {}).get('id')\<close>.\<close>

definition event_info :: "hook_event \<Rightarrow> info_dict" where
  "event_info d = (case d_info_dict d of None \<Rightarrow> empty_info | Some info \<Rightarrow> info)"

definition hook_video_id :: "hook_event \<Rightarrow> string option" where
  "hook_video_id d = py_get (i_id (event_info d))"

definition intermediate_suffixes :: "string list" where
  "intermediate_suffixes = [''.webm'', ''.m4a'', ''.mkv'', ''.f'']"

text \<open>
  The suite of the \<open>try\<close> statement (lines 260-300). The result is the list of snapshots
  handed to the callback and the exception that leaves the suite, if one does.
\<close>

definition hook_body ::
  "callback \<Rightarrow> string \<Rightarrow> hook_event \<Rightarrow> DownloadProgress list \<times> error option" where
  "hook_body callback video_id' d =
     (case py_index (d_status d) of
        Inl e \<Rightarrow> ([], Some e)
      | Inr st \<Rightarrow>
          if st = Some ''downloading'' then
            (case DownloadProgress_init (Some ''downloading'') (Some video_id')
                    (py_get_default (i_title (event_info d)) ''Unknown'')
                    (py_get (d_downloaded_bytes d))
                    (py_or (py_get (d_total_bytes d)) (py_get (d_total_bytes_estimate d)))
                    (py_get (d_speed d)) (py_get (d_eta d)) (py_get (d_filename d))
                    None None
                    (py_get (d_fragment_index d)) (py_get (d_fragment_count d)) of
               Inl e \<Rightarrow> ([], Some e)
             | Inr progress \<Rightarrow> ([progress], callback progress))
          else if st = Some ''finished'' then
            (case py_get_default (d_filename d) [] of
               None \<Rightarrow> ([], Some AttributeError)
             | Some filename' \<Rightarrow>
                 if endswith_any filename' intermediate_suffixes then ([], None)
                 else
                   (case DownloadProgress_init (Some ''finished'') (Some video_id')
                           (py_get_default (i_title (event_info d)) ''Unknown'')
                           None None None None (Some filename') None None None None of
                      Inl e \<Rightarrow> ([], Some e)
                    | Inr progress \<Rightarrow> ([progress], callback progress)))
          else ([], None))"

text \<open>
  The hook: the lookup of lines 254-258 stands before the \<open>try\<close> and, on a dictionary
  with a string identifier, does not raise; the handler of line 301 swallows what derives from
  \<open>Exception\<close>.
\<close>

definition progress_hook ::
  "registry \<Rightarrow> hook_event \<Rightarrow> DownloadProgress list \<times> error option" where
  "progress_hook progress_callbacks d =
     (case hook_video_id d of
        None \<Rightarrow> ([], None)
      | Some video_id' \<Rightarrow>
          if video_id' = [] then ([], None)
          else
            (case progress_callbacks video_id' of
               None \<Rightarrow> ([], None)
             | Some callback \<Rightarrow>
                 (case hook_body callback video_id' d of
                    (sent, None) \<Rightarrow> (sent, None)
                  | (sent, Some e) \<Rightarrow>
                      if is_Exception e then (sent, None) else (sent, Some e))))"

text \<open>
  The extractor calls the hook once per event while it downloads; an exception that leaves the
  hook ends the download with that exception.
\<close>

fun run_hooks :: "registry \<Rightarrow> hook_event list \<Rightarrow> DownloadProgress list \<times> error option" where
  "run_hooks progress_callbacks [] = ([], None)"
| "run_hooks progress_callbacks (d # ds) =
     (case progress_hook progress_callbacks d of
        (sent, Some e) \<Rightarrow> (sent, Some e)
      | (sent, None) \<Rightarrow>
          (case run_hooks progress_callbacks ds of
             (later, r) \<Rightarrow> (sent @ later, r)))"

section \<open>\<open>download_video\<close> (lines 304-372)\<close>

text \<open>
  The options dictionary. The entry \<open>progress_hooks\<close> is \<open>[self._progress_hook]\<close> in both
  modes and is left out; \<open>download_ranges\<close> is a function that returns the one range given
  here; a key that a mode does not set is \<open>None\<close>.
\<close>

record ydl_opts =
  opt_format :: string
  opt_merge_output_format :: "string option"
  opt_outtmpl :: string
  opt_postprocessors :: "(string \<times> string) list list"
  opt_quiet :: bool
  opt_nocheckcertificate :: bool
  opt_prefer_ffmpeg :: bool
  opt_keepvideo :: "bool"
  opt_postprocessor_args :: "string list option"
  opt_download_ranges :: "(int \<times> int) option"
  opt_force_keyframes_at_cuts :: "bool option"

text \<open>\<open>os.path.join\<close> of a directory and a relative file name.\<close>

definition path_join :: "string \<Rightarrow> string \<Rightarrow> string" where
  "path_join dir name =
     (if dir = [] \<or> last dir = CHR ''/'' then dir @ name else dir @ ''/'' @ name)"

definition default_format :: string where
  "default_format = ''bestvideo[height<=1080][ext=mp4]+bestaudio[ext=m4a]/best[ext=mp4]/best''"

definition download_opts ::
  "string \<Rightarrow> string option \<Rightarrow> bool \<Rightarrow> int option \<Rightarrow> int option \<Rightarrow> ydl_opts" where
  "download_opts downloads_dir format_id' extract_audio start_time end_time =
     (let base =
        (if extract_audio then
           \<lparr> opt_format = ''bestaudio/best'',
             opt_merge_output_format = None,
             opt_outtmpl = path_join downloads_dir ''%(title)s.%(ext)s'',
             opt_postprocessors =
               [[(''key'', ''FFmpegExtractAudio''), (''preferredcodec'', ''mp3''),
                 (''preferredquality'', ''192'')]],
             opt_quiet = True, opt_nocheckcertificate = True, opt_prefer_ffmpeg = True,
             opt_keepvideo = False,
             opt_postprocessor_args = None,
             opt_download_ranges = None, opt_force_keyframes_at_cuts = None \<rparr>
         else
           \<lparr> opt_format = (if truthy_str format_id' then the format_id' else default_format),
             opt_merge_output_format = Some ''mp4'',
             opt_outtmpl = path_join downloads_dir ''%(title)s.%(ext)s'',
             opt_postprocessors =
               [[(''key'', ''FFmpegVideoConvertor''), (''preferedformat'', ''mp4'')]],
             opt_quiet = True, opt_nocheckcertificate = True, opt_prefer_ffmpeg = True,
             opt_keepvideo = True,
             opt_postprocessor_args =
               Some [''-c:v'', ''copy'', ''-c:a'', ''aac'', ''-strict'', ''experimental''],
             opt_download_ranges = None, opt_force_keyframes_at_cuts = None \<rparr>)
      in (case (start_time, end_time) of
            (Some st, Some en) \<Rightarrow>
              base \<lparr> opt_download_ranges := Some (st, en),
                     opt_force_keyframes_at_cuts := Some True \<rparr>
          | _ \<Rightarrow> base))"

text \<open>
  What the extractor does for one URL under given options: the answer of
  \<open>extract_info(url, download=False)\<close>, the events it hands to the hook while it downloads,
  and the exception its \<open>download\<close> ends with when no hook raised.
\<close>

record tool_run =
  extract_info :: "error + info_dict option"
  hook_events :: "hook_event list"
  download_raises :: "error option"

type_synonym extractor = "ydl_opts \<Rightarrow> string \<Rightarrow> tool_run"

text \<open>
  The suite of the \<open>try\<close> statement (lines 353-366): how it ends, the value of the variable
  \<open>video_id\<close> at that point, the registry and the snapshots sent.
\<close>

definition download_try ::
  "registry \<Rightarrow> tool_run \<Rightarrow> callback option
   \<Rightarrow> (error + string option) \<times> string option \<times> registry \<times> DownloadProgress list" where
  "download_try progress_callbacks run callback =
     (case extract_info run of
        Inl e \<Rightarrow> (Inl e, None, progress_callbacks, [])
      | Inr None \<Rightarrow> (Inl AttributeError, None, progress_callbacks, [])
      | Inr (Some info) \<Rightarrow>
          (case py_get (i_id info) of
             None \<Rightarrow> (Inl (Exception ''Could not get video ID''), None, progress_callbacks, [])
           | Some video_id' \<Rightarrow>
               if video_id' = []
               then (Inl (Exception ''Could not get video ID''), Some video_id',
                     progress_callbacks, [])
               else
                 (let registered =
                    (case callback of
                       None \<Rightarrow> progress_callbacks
                     | Some cb \<Rightarrow> progress_callbacks(video_id' \<mapsto> cb))
                  in (case run_hooks registered (hook_events run) of
                        (sent, Some e) \<Rightarrow> (Inl e, Some video_id', registered, sent)
                      | (sent, None) \<Rightarrow>
                          (case download_raises run of
                             Some e \<Rightarrow> (Inl e, Some video_id', registered, sent)
                           | None \<Rightarrow>
                               (Inr (py_get (i_title info)), Some video_id', registered,
                                sent))))))"

record download_result =
  returned :: "error + string option"
  callbacks_after :: registry
  progress_sent :: "DownloadProgress list"

text \<open>
  The whole function: the handler of line 367 replaces what derives from \<open>Exception\<close>,
  the \<open>finally\<close> block of lines 369-372 runs on every way out.
\<close>

definition download_video ::
  "string \<Rightarrow> registry \<Rightarrow> extractor \<Rightarrow> string \<Rightarrow> string option \<Rightarrow> bool \<Rightarrow> int option \<Rightarrow> int option
   \<Rightarrow> callback option \<Rightarrow> download_result" where
  "download_video downloads_dir progress_callbacks ydl url format_id' extract_audio
       start_time end_time callback =
     (case download_try progress_callbacks
             (ydl (download_opts downloads_dir format_id' extract_audio start_time end_time) url)
             callback of
        (outcome, video_id', registry', sent) \<Rightarrow>
          \<lparr> returned =
              (case outcome of
                 Inl e \<Rightarrow> if is_Exception e then Inl (ErrorDownloading e) else Inl e
               | Inr title' \<Rightarrow> Inr title'),
            callbacks_after =
              (case video_id' of
                 None \<Rightarrow> registry'
               | Some v \<Rightarrow>
                   if v = [] then registry'
                   else (case registry' v of
                           None \<Rightarrow> registry'
                         | Some cb \<Rightarrow> registry'(v := None))),
            progress_sent = sent \<rparr>)"

section \<open>\<open>get_playlist_info\<close> (lines 125-172)\<close>

text \<open>
  The record of a playlist and its entries, as the extractor returns them in flat mode.
  An entry is \<open>None\<close> when it is \<open>None\<close> or empty in the source: the test \<open>if entry\<close>
  skips both.
\<close>

record playlist_entry =
  e_id :: "string field"
  e_title :: "string field"
  e_duration :: "int field"
  e_thumbnail :: "string field"
  e_webpage_url :: "string field"
  e_uploader :: "string field"

record playlist_dict =
  p_id :: "string field"
  p_title :: "string field"
  p_uploader :: "string field"
  p_description :: "string field"
  p_webpage_url :: "string field"
  p_entries :: "playlist_entry option list field"

text \<open>The loop of lines 145-158: \<open>entries\<close> is the list so far, \<open>idx\<close> the position.\<close>

fun playlist_entries ::
  "VideoInfo list \<Rightarrow> int \<Rightarrow> playlist_entry option list \<Rightarrow> error + VideoInfo list" where
  "playlist_entries entries idx [] = Inr entries"
| "playlist_entries entries idx (None # rest) = playlist_entries entries (idx + 1) rest"
| "playlist_entries entries idx (Some entry # rest) =
     (case py_index (e_id entry) of
        Inl e \<Rightarrow> Inl e
      | Inr id' \<Rightarrow>
          (case VideoInfo_init id' (py_get (e_title entry)) (py_get (e_duration entry))
                  (py_get (e_thumbnail entry)) (Some []) (py_get (e_webpage_url entry))
                  None None (py_get (e_uploader entry)) (Some idx) of
             Inl e \<Rightarrow> Inl e
           | Inr video_info \<Rightarrow> playlist_entries (entries @ [video_info]) (idx + 1) rest))"

text \<open>
  The call of lines 160-167 passes \<open>id\<close>, \<open>title\<close>, \<open>uploader\<close>, \<open>description\<close>,
  \<open>webpage_url\<close> and \<open>videos\<close>: \<open>description\<close> is no field of \<open>PlaylistInfo\<close>, and the
  required field \<open>video_count\<close> is not passed.
\<close>

text \<open>
  The record with none of the keys is the empty dictionary, which the test \<open>if not info\<close>
  of line 137 takes like \<open>None\<close>.
\<close>

definition playlist_is_empty :: "playlist_dict \<Rightarrow> bool" where
  "playlist_is_empty info =
     (p_id info = Missing \<and> p_title info = Missing \<and> p_uploader info = Missing
      \<and> p_description info = Missing \<and> p_webpage_url info = Missing
      \<and> p_entries info = Missing)"

definition get_playlist_info :: "error + playlist_dict option \<Rightarrow> error + PlaylistInfo" where
  "get_playlist_info extracted =
     (case extracted of
        Inl e \<Rightarrow> Inl e
      | Inr None \<Rightarrow> Inl (Exception ''No playlist information found'')
      | Inr (Some info) \<Rightarrow>
          if playlist_is_empty info then Inl (Exception ''No playlist information found'')
          else
          (case p_entries info of
             Missing \<Rightarrow> Inl (Exception ''URL is not a playlist'')
           | Null \<Rightarrow> Inl TypeError
           | Val es \<Rightarrow>
               (case playlist_entries [] 1 es of
                  Inl e \<Rightarrow> Inl e
                | Inr entries \<Rightarrow>
                    (case py_index (p_id info) of
                       Inl e \<Rightarrow> Inl e
                     | Inr id' \<Rightarrow>
                         PlaylistInfo_init id' (py_get (p_title info))
                           (py_get (p_uploader info)) None (Some entries)
                           (py_get (p_webpage_url info))))))"

section \<open>\<open>batch_download_playlist\<close> (lines 174-250)\<close>

text \<open>
  The parameters of \<open>download_video\<close> (line 304) after \<open>self\<close>. A call binds its keyword
  arguments to them before the body runs, and a keyword that is no parameter raises
  \<open>TypeError\<close>.
\<close>

definition download_video_params :: "string list" where
  "download_video_params =
     [''url'', ''format_id'', ''extract_audio'', ''start_time'', ''end_time'', ''callback'']"

definition bind_keywords :: "string list \<Rightarrow> string list \<Rightarrow> error + unit" where
  "bind_keywords params keywords =
     (if list_all (\<lambda>k. k \<in> set params) keywords then Inr () else Inl TypeError)"

type_synonym batch_callback = "BatchDownloadProgress \<Rightarrow> error option"

definition call_callback :: "batch_callback option \<Rightarrow> BatchDownloadProgress \<Rightarrow> error option" where
  "call_callback callback batch_progress' =
     (case callback of None \<Rightarrow> None | Some cb \<Rightarrow> cb batch_progress')"

text \<open>The local variables of the loop and the registry of the service.\<close>

record batch_state =
  batch_progress :: BatchDownloadProgress
  downloaded_files :: "string option list"
  callbacks_now :: registry

text \<open>
  The suite of the inner \<open>try\<close> statement (lines 196-239) for one video: the exception that
  leaves it, if any, and the state at that point. The two assignments of lines 197-198 name
  attributes that \<open>BatchDownloadProgress\<close> does not declare. The call of lines 228-232 passes
  the URL by position and the keywords \<open>format_id\<close> and \<open>progress_hooks\<close>; the local function
  \<open>progress_hook\<close> of lines 204-225 is only ever passed in that call.
\<close>

definition batch_try ::
  "string \<Rightarrow> extractor \<Rightarrow> string option \<Rightarrow> batch_callback option \<Rightarrow> VideoInfo \<Rightarrow> batch_state
   \<Rightarrow> error option \<times> batch_state" where
  "batch_try downloads_dir ydl format_id' callback video s =
     (case pydantic_setattr BatchDownloadProgress_fields ''current_video_title'' of
        Inl e \<Rightarrow> (Some e, s)
      | Inr _ \<Rightarrow>
     (case pydantic_setattr BatchDownloadProgress_fields ''current_video_progress'' of
        Inl e \<Rightarrow> (Some e, s)
      | Inr _ \<Rightarrow>
     (case call_callback callback (batch_progress s) of
        Some e \<Rightarrow> (Some e, s)
      | None \<Rightarrow>
     (case bind_keywords download_video_params [''format_id'', ''progress_hooks''] of
        Inl e \<Rightarrow> (Some e, s)
      | Inr _ \<Rightarrow>
     (let r = download_video downloads_dir (callbacks_now s) ydl (v_webpage_url video)
                format_id' False None None None;
          s1 = s \<lparr> callbacks_now := callbacks_after r \<rparr>
      in (case returned r of
            Inl e \<Rightarrow> (Some e, s1)
          | Inr file_path \<Rightarrow>
              (let s2 = s1 \<lparr> batch_progress :=
                               (batch_progress s1)
                                 \<lparr> completed_videos :=
                                     completed_videos (batch_progress s1) + 1 \<rparr>,
                             downloaded_files := downloaded_files s1 @ [file_path] \<rparr>
               in (case call_callback callback (batch_progress s2) of
                     Some e \<Rightarrow> (Some e, s2)
                   | None \<Rightarrow> (None, s2)))))))))"

text \<open>
  The loop of lines 194-244: the handler of line 241 prints and goes on to the next video.
\<close>

fun batch_loop ::
  "string \<Rightarrow> extractor \<Rightarrow> string option \<Rightarrow> batch_callback option \<Rightarrow> batch_state
   \<Rightarrow> VideoInfo list \<Rightarrow> error + batch_state" where
  "batch_loop downloads_dir ydl format_id' callback s [] = Inr s"
| "batch_loop downloads_dir ydl format_id' callback s (video # videos) =
     (case batch_try downloads_dir ydl format_id' callback video s of
        (None, s') \<Rightarrow> batch_loop downloads_dir ydl format_id' callback s' videos
      | (Some e, s') \<Rightarrow>
          if is_Exception e then batch_loop downloads_dir ydl format_id' callback s' videos
          else Inl e)"

text \<open>
  Lines 179-246, once the playlist is fetched. The constructor call of lines 182-189 passes
  \<open>total_videos\<close> and \<open>completed_videos\<close> and four keywords that are no fields; the
  required field \<open>status\<close> is not passed.
\<close>

definition batch_after_fetch ::
  "string \<Rightarrow> registry \<Rightarrow> extractor \<Rightarrow> string option \<Rightarrow> batch_callback option \<Rightarrow> PlaylistInfo
   \<Rightarrow> error + string option list" where
  "batch_after_fetch downloads_dir progress_callbacks ydl format_id' callback playlist_info =
     (let total_videos' = int (length (pl_videos playlist_info))
      in (case BatchDownloadProgress_init None (Some total_videos') (Some 0) None None None of
            Inl e \<Rightarrow> Inl e
          | Inr batch_progress' \<Rightarrow>
              (case batch_loop downloads_dir ydl format_id' callback
                      \<lparr> batch_progress = batch_progress', downloaded_files = [],
                        callbacks_now = progress_callbacks \<rparr>
                      (pl_videos playlist_info) of
                 Inl e \<Rightarrow> Inl e
               | Inr s \<Rightarrow> Inr (downloaded_files s))))"

text \<open>
  The whole function; \<open>fetched\<close> is the extractor's answer for the playlist URL in flat mode.
  The handler of line 248 prints and raises the exception again.
\<close>

definition batch_download_playlist ::
  "string \<Rightarrow> registry \<Rightarrow> extractor \<Rightarrow> error + playlist_dict option \<Rightarrow> string option
   \<Rightarrow> batch_callback option \<Rightarrow> error + string option list" where
  "batch_download_playlist downloads_dir progress_callbacks ydl fetched format_id' callback =
     (case get_playlist_info fetched of
        Inl e \<Rightarrow> Inl e
      | Inr playlist_info \<Rightarrow>
          batch_after_fetch downloads_dir progress_callbacks ydl format_id' callback
            playlist_info)"

section \<open>Example inputs\<close>

text \<open>Four records of one video: video-only in WebM and in MP4, audio-only, and combined.\<close>

definition sample_formats :: "raw_format list" where
  "sample_formats =
     [\<lparr> f_acodec = Val ''none'', f_vcodec = Val ''vp9'', f_ext = Val ''webm'',
        f_height = Val 1080, f_fps = Val 30, f_tbr = Val 2500, f_filesize = Null,
        f_format_id = Val ''248'' \<rparr>,
      \<lparr> f_acodec = Val ''mp4a'', f_vcodec = Val ''none'', f_ext = Val ''m4a'',
        f_height = Null, f_fps = Null, f_tbr = Null, f_filesize = Val 1000,
        f_format_id = Val ''140'' \<rparr>,
      \<lparr> f_acodec = Val ''none'', f_vcodec = Val ''avc1'', f_ext = Val ''mp4'',
        f_height = Val 720, f_fps = Val 30, f_tbr = Val 1200, f_filesize = Val 5000,
        f_format_id = Val ''136'' \<rparr>,
      \<lparr> f_acodec = Val ''mp4a'', f_vcodec = Val ''avc1'', f_ext = Val ''mp4'',
        f_height = Val 360, f_fps = Val 25, f_tbr = Val 1200, f_filesize = Missing,
        f_format_id = Val ''18'' \<rparr>]"

definition sample_selected :: "FormatOption list" where
  "sample_selected =
     [\<lparr> format_id = Some ''136'', ext = Some ''mp4'', filesize = Some 5000,
        format_note = ''720p 30fps video-only'', tbr = Some 1200,
        has_audio = False, has_video = True \<rparr>,
      \<lparr> format_id = Some ''18'', ext = Some ''mp4'', filesize = None,
        format_note = ''360p 25fps video+audio'', tbr = Some 1200,
        has_audio = True, has_video = True \<rparr>,
      \<lparr> format_id = Some ''140'', ext = Some ''m4a'', filesize = Some 1000,
        format_note = ''audio-only'', tbr = None, has_audio = True, has_video = False \<rparr>]"

text \<open>A combined format whose height is the number zero.\<close>

definition zero_height_format :: raw_format where
  "zero_height_format =
     \<lparr> f_acodec = Val ''mp4a'', f_vcodec = Val ''avc1'', f_ext = Val ''mp4'',
       f_height = Val 0, f_fps = Val 30, f_tbr = Val 700, f_filesize = Null,
       f_format_id = Val ''22'' \<rparr>"

text \<open>
  The metadata of one video and the hook events of its download: progress reports and the
  end of a file.
\<close>

definition sample_info :: info_dict where
  "sample_info = empty_info \<lparr> i_id := Val ''abc'', i_title := Val ''Clip'' \<rparr>"

definition downloading_event :: "int \<Rightarrow> hook_event" where
  "downloading_event n =
     \<lparr> d_status = Val ''downloading'', d_info_dict = Some sample_info,
       d_filename = Val ''clip.mp4.part'', d_downloaded_bytes = Val n, d_total_bytes = Val 100,
       d_total_bytes_estimate = Missing, d_speed = Null, d_eta = Null,
       d_fragment_index = Missing, d_fragment_count = Missing \<rparr>"

definition finished_event :: "string \<Rightarrow> hook_event" where
  "finished_event name =
     \<lparr> d_status = Val ''finished'', d_info_dict = Some sample_info, d_filename = Val name,
       d_downloaded_bytes = Val 100, d_total_bytes = Val 100, d_total_bytes_estimate = Missing,
       d_speed = Missing, d_eta = Missing, d_fragment_index = Missing,
       d_fragment_count = Missing \<rparr>"

definition sample_events :: "hook_event list" where
  "sample_events =
     [downloading_event 10, downloading_event 55, finished_event ''intermediate.webm'',
      downloading_event 90, finished_event ''final.mp4'']"

definition downloading_progress :: "int \<Rightarrow> DownloadProgress" where
  "downloading_progress n =
     \<lparr> status = ''downloading'', video_id = ''abc'', title = ''Clip'',
       downloaded_bytes = Some n, total_bytes = Some 100, speed = None, eta = None,
       filename = Some ''clip.mp4.part'', playlist_index = None, error_text = None,
       fragment_index = None, fragment_count = None \<rparr>"

definition finished_progress :: "string \<Rightarrow> DownloadProgress" where
  "finished_progress name =
     \<lparr> status = ''finished'', video_id = ''abc'', title = ''Clip'',
       downloaded_bytes = None, total_bytes = None, speed = None, eta = None,
       filename = Some name, playlist_index = None, error_text = None,
       fragment_index = None, fragment_count = None \<rparr>"

text \<open>
  The events of a download in the default video format: the extractor fetches the video stream
  and the audio stream into files of their own and merges them afterwards.
\<close>

definition default_format_events :: "hook_event list" where
  "default_format_events =
     [downloading_event 40, finished_event ''Clip.f137.mp4'', downloading_event 70,
      finished_event ''Clip.f140.m4a'']"

text \<open>A callback that returns, one that raises, and a registry that holds one for the video.\<close>

definition quiet_callback :: callback where
  "quiet_callback p = None"

definition failing_callback :: callback where
  "failing_callback p = Some (Exception ''connection closed'')"

definition cancelled_callback :: callback where
  "cancelled_callback p = Some CancelledError"

definition registry_with :: "callback \<Rightarrow> registry" where
  "registry_with cb = Map.empty(''abc'' \<mapsto> cb)"

text \<open>An extractor whose download emits the sample events and then fails.\<close>

definition failing_ydl :: extractor where
  "failing_ydl opts url =
     \<lparr> extract_info = Inr (Some sample_info), hook_events = sample_events,
       download_raises = Some (ToolError ''network unreachable'') \<rparr>"

text \<open>
  Playlists whose entries carry every key that \<open>VideoInfo\<close> requires: one of seven entries
  with the second and the fifth empty, one of five entries.
\<close>

definition entry_at :: "string \<Rightarrow> playlist_entry" where
  "entry_at name =
     \<lparr> e_id = Val name, e_title = Val name, e_duration = Val 60, e_thumbnail = Val ''t.jpg'',
       e_webpage_url = Val (''https://v/'' @ name), e_uploader = Null \<rparr>"

definition video_at :: "string \<Rightarrow> int \<Rightarrow> VideoInfo" where
  "video_at name idx =
     \<lparr> v_id = name, v_title = name, v_duration = 60, v_thumbnail = ''t.jpg'', v_formats = [],
       v_webpage_url = ''https://v/'' @ name, v_description = None, v_view_count = None,
       v_uploader = None, v_playlist_index = Some idx \<rparr>"

definition playlist_of :: "playlist_entry option list \<Rightarrow> playlist_dict" where
  "playlist_of es =
     \<lparr> p_id = Val ''PL1'', p_title = Val ''Mix'', p_uploader = Val ''me'',
       p_description = Null, p_webpage_url = Val ''https://v/PL1'', p_entries = Val es \<rparr>"

definition seven_entries :: "playlist_entry option list" where
  "seven_entries =
     [Some (entry_at ''v1''), None, Some (entry_at ''v3''), Some (entry_at ''v4''), None,
      Some (entry_at ''v6''), Some (entry_at ''v7'')]"

definition five_entries :: "playlist_entry option list" where
  "five_entries =
     [Some (entry_at ''v1''), Some (entry_at ''v2''), Some (entry_at ''v3''),
      Some (entry_at ''v4''), Some (entry_at ''v5'')]"

definition five_videos :: "VideoInfo list" where
  "five_videos =
     [video_at ''v1'' 1, video_at ''v2'' 2, video_at ''v3'' 3, video_at ''v4'' 4,
      video_at ''v5'' 5]"

text \<open>
  The \<open>PlaylistInfo\<close> of the five entries with the video count filled in, and the state of a
  batch over it that has a progress object: neither comes out of the code, they are the inputs
  of the later stages taken alone.
\<close>

definition five_info :: PlaylistInfo where
  "five_info =
     \<lparr> pl_id = ''PL1'', pl_title = ''Mix'', pl_uploader = Some ''me'', pl_video_count = 5,
       pl_videos = five_videos, pl_webpage_url = ''https://v/PL1'' \<rparr>"

definition five_state :: batch_state where
  "five_state =
     \<lparr> batch_progress =
         \<lparr> b_status = ''downloading'', total_videos = 5, completed_videos = 0,
           current_video = None, failed_videos = [], playlist_title = None \<rparr>,
       downloaded_files = [], callbacks_now = Map.empty \<rparr>"

text \<open>An extractor whose download of the third video fails and of every other succeeds.\<close>

definition third_fails_ydl :: extractor where
  "third_fails_ydl opts url =
     \<lparr> extract_info = Inr (Some (sample_info \<lparr> i_title := Val url \<rparr>)), hook_events = [],
       download_raises =
         (if url = ''https://v/v3'' then Some (ToolError ''video unavailable'') else None) \<rparr>"

section \<open>Facts about the format selector\<close>

lemma py_index_get: "py_index c = Inr v \<Longrightarrow> v = py_get c"
  by (cases c) auto

lemma format_entry_Inr: "format_entry f = Inr e \<Longrightarrow> e = entry_of f"
  by (auto simp: format_entry_def entry_of_def split: sum.splits dest!: py_index_get)

lemma collect_formats_Inr:
  "collect_formats acc raws = Inr out \<Longrightarrow> out = acc @ map entry_of (filter keeps raws)"
proof (induction raws arbitrary: acc)
  case Nil
  then show ?case by simp
next
  case (Cons f fs)
  show ?case
  proof (cases "keeps f")
    case True
    with Cons.prems obtain e where e: "format_entry f = Inr e"
      and rest: "collect_formats (acc @ [e]) fs = Inr out"
      by (auto split: sum.splits)
    from Cons.IH [OF rest] format_entry_Inr [OF e] True show ?thesis by simp
  next
    case False
    with Cons.prems Cons.IH show ?thesis by simp
  qed
qed

lemma keeps_inclusion_rule: "keeps f = inclusion_rule f"
  by (simp add: keeps_def inclusion_rule_def codec_absent_def)

lemma tbr_ge_iff: "tbr_ge a b \<longleftrightarrow> b \<le> a"
  by (cases a; cases b) auto

lemma sort_key_tbr_eq: "sort_key_tbr x = tbr x"
  by (simp add: sort_key_tbr_def split: option.splits)

lemma mset_sort_reverse: "mset (sort_reverse key xs) = mset xs"
  by (simp add: sort_reverse_def)

lemma set_sort_reverse: "set (sort_reverse key xs) = set xs"
  by (simp add: sort_reverse_def)

lemma sort_reverse_descending:
  "sorted_wrt (\<lambda>a b. key b \<le> key a) (sort_reverse key xs)"
proof -
  have "sorted (map key (sort_key key (rev xs)))" by (rule sorted_sort_key)
  then have "sorted_wrt (\<lambda>a b. key a \<le> key b) (sort_key key (rev xs))"
    by (simp add: sorted_map)
  then show ?thesis
    by (simp add: sort_reverse_def sorted_wrt_rev)
qed

lemma sort_reverse_stable:
  "filter (\<lambda>x. key x = k) (sort_reverse key xs) = filter (\<lambda>x. key x = k) xs"
proof -
  have "filter (\<lambda>x. key x = k) (sort_key key (rev xs)) = filter (\<lambda>x. key x = k) (rev xs)"
    by (rule sort_key_stable)
  then show ?thesis
    by (simp add: sort_reverse_def rev_filter [symmetric])
qed

lemma select_formats_Inr:
  "select_formats raws = Inr out \<Longrightarrow>
   out = sort_reverse sort_key_tbr (map entry_of (filter keeps raws))"
  by (auto simp: select_formats_def split: sum.splits dest!: collect_formats_Inr)

text \<open>The selector fails exactly when a record it keeps lacks the key \<open>format_id\<close> or \<open>ext\<close>.\<close>

lemma format_entry_Inl:
  "(\<exists>e. format_entry f = Inl e) \<longleftrightarrow> f_format_id f = Missing \<or> f_ext f = Missing"
  by (cases "f_format_id f"; cases "f_ext f") (auto simp: format_entry_def)

lemma select_formats_sample: "select_formats sample_formats = Inr sample_selected"
  by (simp add: sample_formats_def sample_selected_def select_formats_def keeps_def
      format_entry_def sort_reverse_def sort_key_tbr_def note_parts_def py_str_int_def
      str_nat.simps)

text \<open>
  \<open>get_video_info\<close> returns the selector's list as \<open>formats\<close> and the caller's
  \<open>playlist_index\<close> as it is.
\<close>

lemma VideoInfo_init_formats:
  "VideoInfo_init i t d th fs w de vc up idx = Inr v \<Longrightarrow>
   Some (v_formats v) = fs \<and> v_playlist_index v = idx"
  by (auto simp: VideoInfo_init_def split: option.splits)

lemma get_video_info_formats:
  assumes "get_video_info (Inr (Some info)) idx = Inr v"
  shows "\<exists>raws. py_get_default (i_formats info) [] = Some raws
           \<and> select_formats raws = Inr (v_formats v) \<and> v_playlist_index v = idx"
  using assms
  by (auto simp: get_video_info_def split: option.splits sum.splits if_splits
      dest!: VideoInfo_init_formats)

lemma collect_formats_entries:
  "collect_formats acc raws = Inr out \<Longrightarrow> f \<in> set raws \<Longrightarrow> keeps f
   \<Longrightarrow> format_entry f = Inr (entry_of f)"
proof (induction raws arbitrary: acc)
  case Nil
  then show ?case by simp
next
  case (Cons g gs)
  show ?case
  proof (cases "keeps g")
    case True
    with Cons.prems(1) obtain e where e: "format_entry g = Inr e"
      and rest: "collect_formats (acc @ [e]) gs = Inr out"
      by (auto split: sum.splits)
    show ?thesis
    proof (cases "f = g")
      case True
      with e format_entry_Inr [OF e] show ?thesis by simp
    next
      case False
      with Cons.prems(2) have "f \<in> set gs" by simp
      from Cons.IH [OF rest this Cons.prems(3)] show ?thesis .
    qed
  next
    case False
    with Cons.prems have "collect_formats acc gs = Inr out" "f \<in> set gs" by auto
    from Cons.IH [OF this Cons.prems(3)] show ?thesis .
  qed
qed

lemma note_parts_nonzero:
  "keeps f \<Longrightarrow> join '' '' (note_parts f) = note_of_nonzero f"
  by (auto simp: keeps_def note_parts_def note_of_nonzero_def stream_label_def codec_absent_def
      split: option.splits)

text \<open>
  C5. A record is in the selector's output if and only if it satisfies the inclusion rule:
  the output holds one entry for each record of the input that satisfies the rule and nothing
  else; no entry of the output is a video-only stream outside MP4.
\<close>

theorem select_formats_inclusion:
  assumes "select_formats raws = Inr out"
  shows "mset out = mset (map entry_of (filter inclusion_rule raws))
     \<and> (\<forall>e \<in> set out. \<not> (has_video e \<and> \<not> has_audio e \<and> ext e \<noteq> Some ''mp4''))"
proof -
  have out: "out = sort_reverse sort_key_tbr (map entry_of (filter keeps raws))"
    using assms by (rule select_formats_Inr)
  have k: "keeps = inclusion_rule" by (rule ext) (rule keeps_inclusion_rule)
  have 1: "mset out = mset (map entry_of (filter inclusion_rule raws))"
    by (simp add: out mset_sort_reverse k)
  have 2: "\<not> (has_video e \<and> \<not> has_audio e \<and> ext e \<noteq> Some ''mp4'')" if "e \<in> set out" for e
  proof -
    from that obtain f where "keeps f" "e = entry_of f"
      by (auto simp: out set_sort_reverse)
    then show ?thesis by (auto simp: keeps_def entry_of_def)
  qed
  from 1 2 show ?thesis by blast
qed

theorem select_formats_inclusion_witness:
  "select_formats sample_formats = Inr sample_selected
   \<and> mset sample_selected = mset (map entry_of (filter inclusion_rule sample_formats))
   \<and> filter (\<lambda>e. has_video e \<and> \<not> has_audio e \<and> ext e \<noteq> Some ''mp4'') sample_selected = []"
  using select_formats_sample select_formats_inclusion [OF select_formats_sample]
  by (simp add: filter_empty_conv)

text \<open>
  C6. The selector's output is in non-increasing order of \<open>tbr\<close>, an entry without \<open>tbr\<close>
  counting as minus infinity, so that every entry after one without \<open>tbr\<close> has none either;
  the entries of one \<open>tbr\<close> value stand in the order of their records in the input.
\<close>

theorem select_formats_sorted_stable:
  assumes "select_formats raws = Inr out"
  shows "sorted_wrt (\<lambda>a b. tbr_ge (tbr a) (tbr b)) out
     \<and> (\<forall>i j. i < j \<and> j < length out \<and> tbr (out ! i) = None \<longrightarrow> tbr (out ! j) = None)
     \<and> (\<forall>k. filter (\<lambda>e. tbr e = k) out
            = map entry_of (filter (\<lambda>f. keeps f \<and> py_get (f_tbr f) = k) raws))"
proof -
  have out: "out = sort_reverse sort_key_tbr (map entry_of (filter keeps raws))"
    using assms by (rule select_formats_Inr)
  have key: "sort_key_tbr = tbr" by (rule ext) (rule sort_key_tbr_eq)
  have s: "sorted_wrt (\<lambda>a b. tbr_ge (tbr a) (tbr b)) out"
    using sort_reverse_descending [of tbr "map entry_of (filter keeps raws)"]
    by (simp add: out key tbr_ge_iff)
  have n: "tbr (out ! j) = None" if "i < j" "j < length out" "tbr (out ! i) = None" for i j
  proof -
    from s that(1,2) have "tbr_ge (tbr (out ! i)) (tbr (out ! j))"
      by (simp add: sorted_wrt_iff_nth_less)
    with that(3) show ?thesis by (cases "tbr (out ! j)") auto
  qed
  have st: "filter (\<lambda>e. tbr e = k) out
            = map entry_of (filter (\<lambda>f. keeps f \<and> py_get (f_tbr f) = k) raws)" for k
  proof -
    have "filter (\<lambda>e. tbr e = k) out = filter (\<lambda>e. tbr e = k) (map entry_of (filter keeps raws))"
      unfolding out key by (rule sort_reverse_stable)
    also have "\<dots> = map entry_of (filter (\<lambda>f. keeps f \<and> py_get (f_tbr f) = k) raws)"
      by (induction raws) (auto simp: entry_of_def)
    finally show ?thesis .
  qed
  from s n st show ?thesis by blast
qed

theorem select_formats_sorted_stable_witness:
  "select_formats sample_formats = Inr sample_selected
   \<and> sorted_wrt (\<lambda>a b. tbr_ge (tbr a) (tbr b)) sample_selected
   \<and> map format_id (filter (\<lambda>e. tbr e = Some 1200) sample_selected) = [Some ''136'', Some ''18'']
   \<and> tbr (sample_selected ! 2) = None"
  using select_formats_sample select_formats_sorted_stable [OF select_formats_sample]
  by (simp add: sample_selected_def)

text \<open>
  C10. Every entry the selector produces has \<open>has_audio\<close> or \<open>has_video\<close> set.
\<close>

theorem select_formats_has_stream:
  assumes "select_formats raws = Inr out"
  shows "\<forall>e \<in> set out. has_audio e \<or> has_video e"
proof
  fix e assume "e \<in> set out"
  with select_formats_Inr [OF assms] obtain f where "keeps f" "e = entry_of f"
    by (auto simp: set_sort_reverse)
  then show "has_audio e \<or> has_video e" by (auto simp: keeps_def entry_of_def)
qed

theorem select_formats_has_stream_witness:
  "select_formats sample_formats = Inr sample_selected
   \<and> list_all (\<lambda>e. has_audio e \<or> has_video e) sample_selected"
  using select_formats_sample select_formats_has_stream [OF select_formats_sample]
  by (simp add: list_all_iff)

text \<open>
  C8, as stated, fails for a record whose height is the number zero: the height is present,
  and the note has no part for it.
\<close>

theorem format_note_zero_height_counterexample:
  "map_sum id (map format_note) (select_formats [zero_height_format])
     = Inr [''30fps video+audio'']
   \<and> note_of_present zero_height_format = ''0p 30fps video+audio''"
  by (simp add: zero_height_format_def select_formats_def keeps_def format_entry_def
      sort_reverse_def note_parts_def note_of_present_def stream_label_def codec_absent_def
      py_str_int_def str_nat.simps)

text \<open>
  C8, amended. Every entry of the output comes from a record of the input that satisfies the
  inclusion rule, and its \<open>format_note\<close> is the space-joined composition of the height
  followed by \<open>p\<close> if the height is present and not zero, the fps followed by \<open>fps\<close> if the
  fps is present and not zero, and one of \<open>video+audio\<close>, \<open>video-only\<close>, \<open>audio-only\<close>
  by the record's stream composition.
\<close>

theorem format_note_composition:
  assumes "select_formats raws = Inr out" and "e \<in> set out"
  shows "\<exists>f \<in> set raws. inclusion_rule f \<and> format_entry f = Inr e
           \<and> format_note e = note_of_nonzero f"
proof -
  from assms(1) obtain collected where c: "collect_formats [] raws = Inr collected"
    by (auto simp: select_formats_def split: sum.splits)
  from select_formats_Inr [OF assms(1)] assms(2)
  obtain f where f: "f \<in> set raws" "keeps f" "e = entry_of f"
    by (auto simp: set_sort_reverse)
  from collect_formats_entries [OF c f(1,2)] f(3) have "format_entry f = Inr e" by simp
  moreover have "format_note e = note_of_nonzero f"
    using note_parts_nonzero [OF f(2)] f(3) by (simp add: entry_of_def)
  moreover have "inclusion_rule f" using f(2) by (simp add: keeps_inclusion_rule)
  ultimately show ?thesis using f(1) by blast
qed

theorem format_note_composition_witness:
  "select_formats sample_formats = Inr sample_selected
   \<and> sample_selected ! 1 \<in> set sample_selected
   \<and> (\<exists>f \<in> set sample_formats. inclusion_rule f \<and> format_entry f = Inr (sample_selected ! 1)
         \<and> format_note (sample_selected ! 1) = note_of_nonzero f)
   \<and> format_note (sample_selected ! 1) = ''360p 25fps video+audio''"
proof -
  have m: "sample_selected ! 1 \<in> set sample_selected" by (simp add: sample_selected_def)
  have n: "format_note (sample_selected ! 1) = ''360p 25fps video+audio''"
    by (simp add: sample_selected_def)
  from select_formats_sample m format_note_composition [OF select_formats_sample m] n
  show ?thesis by blast
qed

section \<open>Facts about the progress hook\<close>

lemma py_index_Inl: "py_index c = Inl e \<Longrightarrow> e = KeyError"
  by (cases c) auto

lemma endswith_examples:
  "endswith_any ''intermediate.webm'' intermediate_suffixes"
  "\<not> endswith_any ''final.mp4'' intermediate_suffixes"
  "\<not> endswith_any ''clip.f137.mp4'' intermediate_suffixes"
  "\<not> endswith_any ''clip.mp4'' intermediate_suffixes"
  "\<not> endswith_any ''Clip.f137.mp4'' intermediate_suffixes"
  "endswith_any ''Clip.f140.m4a'' intermediate_suffixes"
  by (simp_all add: endswith_any_def endswith_def intermediate_suffixes_def)

lemma hook_video_id_sample:
  "hook_video_id (downloading_event n) = Some ''abc''"
  "hook_video_id (finished_event name) = Some ''abc''"
  by (simp_all add: hook_video_id_def event_info_def downloading_event_def finished_event_def
      sample_info_def empty_info_def)

lemma hook_body_downloading_sample:
  "hook_body cb ''abc'' (downloading_event n)
     = ([downloading_progress n], cb (downloading_progress n))"
  by (simp add: hook_body_def event_info_def downloading_event_def sample_info_def
      empty_info_def DownloadProgress_init_def py_or_def downloading_progress_def)

lemma hook_body_finished_sample:
  "hook_body cb ''abc'' (finished_event name)
     = (if endswith_any name intermediate_suffixes then ([], None)
        else ([finished_progress name], cb (finished_progress name)))"
  by (simp add: hook_body_def event_info_def finished_event_def sample_info_def
      empty_info_def DownloadProgress_init_def finished_progress_def)

lemma progress_hook_downloading_sample:
  "progress_hook (registry_with cb) (downloading_event n)
     = ([downloading_progress n],
        case cb (downloading_progress n) of
          None \<Rightarrow> None
        | Some e \<Rightarrow> if is_Exception e then None else Some e)"
  by (simp add: progress_hook_def hook_video_id_sample registry_with_def
      hook_body_downloading_sample split: option.splits)

lemma progress_hook_finished_sample:
  "progress_hook (registry_with cb) (finished_event name)
     = (if endswith_any name intermediate_suffixes then ([], None)
        else ([finished_progress name],
              case cb (finished_progress name) of
                None \<Rightarrow> None
              | Some e \<Rightarrow> if is_Exception e then None else Some e))"
  by (simp add: progress_hook_def hook_video_id_sample registry_with_def
      hook_body_finished_sample split: option.splits)

lemma run_hooks_sample:
  "run_hooks (registry_with quiet_callback) sample_events
     = ([downloading_progress 10, downloading_progress 55, downloading_progress 90,
         finished_progress ''final.mp4''], None)"
  by (simp add: sample_events_def progress_hook_downloading_sample
      progress_hook_finished_sample endswith_examples quiet_callback_def)

lemma status_sample [simp]:
  "status (downloading_progress n) = ''downloading''"
  "status (finished_progress name) = ''finished''"
  by (simp_all add: downloading_progress_def finished_progress_def)

text \<open>What a single call of the hook hands to the callback.\<close>

lemma hook_body_sent:
  assumes "hook_body cb v d = (sent, r)" and "p \<in> set sent"
  shows "sent = [p] \<and> video_id p = v
     \<and> ((status p = ''downloading'' \<and> py_index (d_status d) = Inr (Some ''downloading''))
        \<or> (status p = ''finished'' \<and> py_index (d_status d) = Inr (Some ''finished'')
            \<and> (\<exists>name. py_get_default (d_filename d) [] = Some name \<and> filename p = Some name
                  \<and> \<not> endswith_any name intermediate_suffixes)))"
  using assms
  by (auto simp: hook_body_def DownloadProgress_init_def
      split: sum.splits option.splits if_splits)

lemma progress_hook_sent:
  assumes "progress_hook reg d = (sent, r)" and "p \<in> set sent" and "status p = ''finished''"
  shows "py_index (d_status d) = Inr (Some ''finished'')
     \<and> (\<exists>name. py_get_default (d_filename d) [] = Some name \<and> filename p = Some name
           \<and> \<not> endswith_any name intermediate_suffixes)"
proof -
  from assms(1,2) obtain cb v r' where "hook_body cb v d = (sent, r')"
    by (auto simp: progress_hook_def split: sum.splits option.splits if_splits prod.splits)
  from hook_body_sent [OF this assms(2)] assms(3) show ?thesis by auto
qed

text \<open>
  C4 at the events of a download in the default video format. The one \<open>finished\<close>
  snapshot that the callback receives is for \<open>Clip.f137.mp4\<close>, the video stream that is
  still to be merged with the audio, and not for the final file: the name ends in \<open>.mp4\<close>,
  and the suffix \<open>.f\<close> of line 291 matches no name of the form \<open>.f137.mp4\<close>. Nor is
  \<open>finished\<close> sent at most once: the hook keeps no record of what it has sent, and of two
  \<open>finished\<close> events whose names have none of the four suffixes both reach the callback.
\<close>

theorem finished_for_unmerged_stream:
  "fst (run_hooks (registry_with quiet_callback) default_format_events)
     = [downloading_progress 40, finished_progress ''Clip.f137.mp4'', downloading_progress 70]
   \<and> endswith ''Clip.f137.mp4'' ''.f'' = False
   \<and> fst (run_hooks (registry_with quiet_callback)
            [finished_event ''clip.f137.mp4'', finished_event ''clip.mp4''])
       = [finished_progress ''clip.f137.mp4'', finished_progress ''clip.mp4'']"
  by (simp add: default_format_events_def progress_hook_downloading_sample
      progress_hook_finished_sample endswith_examples quiet_callback_def endswith_def)

text \<open>
  What the test of line 291 does ensure: for every sequence of hook events, a snapshot with
  status \<open>finished\<close> that the callback receives comes from a \<open>finished\<close> event of the
  sequence and carries that event's file name, and the name ends in none of \<open>.webm\<close>,
  \<open>.m4a\<close>, \<open>.mkv\<close>, \<open>.f\<close>.
\<close>

lemma finished_only_without_intermediate_suffix:
  assumes "run_hooks progress_callbacks events = (sent, r)"
    and "p \<in> set sent" and "status p = ''finished''"
  shows "\<exists>d \<in> set events. py_index (d_status d) = Inr (Some ''finished'')
           \<and> (\<exists>name. py_get_default (d_filename d) [] = Some name \<and> filename p = Some name
                 \<and> \<not> endswith_any name intermediate_suffixes)"
  using assms
proof (induction events arbitrary: sent r)
  case Nil
  then show ?case by simp
next
  case (Cons d ds)
  obtain s1 r1 where h: "progress_hook progress_callbacks d = (s1, r1)"
    by (cases "progress_hook progress_callbacks d")
  obtain s2 r2 where t: "run_hooks progress_callbacks ds = (s2, r2)"
    by (cases "run_hooks progress_callbacks ds")
  from Cons.prems(1) h t have "set sent \<subseteq> set s1 \<union> set s2"
    by (auto split: option.splits)
  with Cons.prems(2) consider "p \<in> set s1" | "p \<in> set s2" by auto
  then show ?case
  proof cases
    case 1
    from progress_hook_sent [OF h 1 Cons.prems(3)] show ?thesis by auto
  next
    case 2
    from Cons.IH [OF t 2 Cons.prems(3)] show ?thesis by auto
  qed
qed

text \<open>
  The event sequence of the specification's example yields one \<open>finished\<close>, for
  \<open>final.mp4\<close>.
\<close>

lemma finished_once_in_sample:
  "run_hooks (registry_with quiet_callback) sample_events
     = ([downloading_progress 10, downloading_progress 55, downloading_progress 90,
         finished_progress ''final.mp4''], None)
   \<and> filter (\<lambda>p. status p = ''finished'')
        (fst (run_hooks (registry_with quiet_callback) sample_events))
      = [finished_progress ''final.mp4'']
   \<and> (\<exists>d \<in> set sample_events. py_index (d_status d) = Inr (Some ''finished'')
         \<and> (\<exists>name. py_get_default (d_filename d) [] = Some name
               \<and> filename (finished_progress ''final.mp4'') = Some name
               \<and> \<not> endswith_any name intermediate_suffixes))"
proof -
  have m: "finished_progress ''final.mp4''
             \<in> set [downloading_progress 10, downloading_progress 55, downloading_progress 90,
                    finished_progress ''final.mp4'']"
    by simp
  have f: "filter (\<lambda>p. status p = ''finished'')
             (fst (run_hooks (registry_with quiet_callback) sample_events))
           = [finished_progress ''final.mp4'']"
    by (simp add: run_hooks_sample)
  from run_hooks_sample f
    finished_only_without_intermediate_suffix [OF run_hooks_sample m status_sample(2)]
  show ?thesis by blast
qed

text \<open>
  C7, as stated, fails: the handler of line 301 catches what derives from \<open>Exception\<close>, and
  a callback that raises \<open>CancelledError\<close> takes the hook with it.
\<close>

theorem progress_hook_cancelled_counterexample:
  "progress_hook (registry_with cancelled_callback) (downloading_event 10)
     = ([downloading_progress 10], Some CancelledError)"
  by (simp add: progress_hook_downloading_sample cancelled_callback_def)

text \<open>
  C7, amended. For every event dictionary and every registry whose callbacks return or raise
  an \<open>Exception\<close>, the hook returns normally and propagates no exception.
\<close>

theorem progress_hook_never_raises:
  assumes "\<forall>v cb p e. progress_callbacks v = Some cb \<and> cb p = Some e \<longrightarrow> is_Exception e"
  shows "snd (progress_hook progress_callbacks d) = None"
proof -
  have body: "r = None \<or> is_Exception (the r)"
    if "progress_callbacks v = Some cb" "hook_body cb v d = (sent, r)" for v cb sent r
  proof (cases r)
    case None
    then show ?thesis by simp
  next
    case (Some e)
    have "is_Exception e"
      using that(2) Some assms that(1)
      by (auto simp: hook_body_def DownloadProgress_init_def dest!: py_index_Inl
          split: sum.splits option.splits if_splits)
    with Some show ?thesis by simp
  qed
  show ?thesis
  proof (cases "hook_video_id d")
    case None
    then show ?thesis by (simp add: progress_hook_def)
  next
    case (Some vid)
    note vid = this
    show ?thesis
    proof (cases "progress_callbacks vid")
      case None
      with vid show ?thesis by (simp add: progress_hook_def)
    next
      case (Some cb)
      obtain sent r where b: "hook_body cb vid d = (sent, r)" by (cases "hook_body cb vid d")
      from body [OF Some b] vid Some b show ?thesis
        by (auto simp: progress_hook_def split: option.splits)
    qed
  qed
qed

theorem progress_hook_never_raises_witness:
  "failing_callback (downloading_progress 10) = Some (Exception ''connection closed'')
   \<and> progress_hook (registry_with failing_callback) (downloading_event 10)
       = ([downloading_progress 10], None)"
proof -
  have b: "\<forall>v cb p e. registry_with failing_callback v = Some cb \<and> cb p = Some e
             \<longrightarrow> is_Exception e"
    by (auto simp: registry_with_def failing_callback_def split: if_splits)
  have c: "progress_hook (registry_with failing_callback) (downloading_event 10)
             = ([downloading_progress 10], None)"
    using progress_hook_never_raises [OF b]
    by (simp add: progress_hook_downloading_sample failing_callback_def)
  have d: "failing_callback (downloading_progress 10) = Some (Exception ''connection closed'')"
    by (simp add: failing_callback_def)
  from c d show ?thesis by blast
qed

section \<open>Facts about \<open>download_video\<close>\<close>

text \<open>
  C9. The options depend on the mode. With \<open>extract_audio\<close> the format is
  \<open>bestaudio/best\<close> whatever \<open>format_id\<close> is, the one post-processor extracts audio as
  \<open>mp3\<close> at quality \<open>192\<close>, and \<open>keepvideo\<close> is false. Without it the format is the given
  \<open>format_id\<close>, or without one the default (best video up to 1080p in MP4 plus best M4A audio,
  else best MP4, else best), the streams are merged into \<open>mp4\<close>, and \<open>keepvideo\<close> is true.
\<close>

theorem download_opts_by_mode:
  "opt_format (download_opts dir fid True st en) = ''bestaudio/best''
   \<and> opt_postprocessors (download_opts dir fid True st en)
       = [[(''key'', ''FFmpegExtractAudio''), (''preferredcodec'', ''mp3''),
           (''preferredquality'', ''192'')]]
   \<and> opt_keepvideo (download_opts dir fid True st en) = False
   \<and> opt_format (download_opts dir None False st en)
       = ''bestvideo[height<=1080][ext=mp4]+bestaudio[ext=m4a]/best[ext=mp4]/best''
   \<and> opt_format (download_opts dir (Some (c # cs)) False st en) = c # cs
   \<and> opt_merge_output_format (download_opts dir fid False st en) = Some ''mp4''
   \<and> opt_keepvideo (download_opts dir fid False st en) = True"
  by (simp add: download_opts_def default_format_def Let_def split: option.splits)

theorem download_opts_by_mode_witness:
  "opt_format (download_opts ''/dl'' (Some ''137'') True None None) = ''bestaudio/best''
   \<and> opt_keepvideo (download_opts ''/dl'' (Some ''137'') True None None) = False
   \<and> opt_format (download_opts ''/dl'' (Some ''137'') False None None) = ''137''
   \<and> opt_keepvideo (download_opts ''/dl'' (Some ''137'') False None None) = True"
  using download_opts_by_mode [of "''/dl''" "Some ''137''" None None "CHR ''1''" "''37''"]
  by simp

text \<open>The registry after \<open>download_video\<close>, in the cases of the \<open>try\<close> suite.\<close>

lemma run_hooks_cases:
  obtains sent r where "run_hooks reg events = (sent, r)"
  by (cases "run_hooks reg events")

lemma download_try_registry:
  assumes "download_try reg run callback = (outcome, vid, reg', sent)"
  shows "(\<forall>k. vid \<noteq> Some k \<longrightarrow> reg' k = reg k)
     \<and> (case extract_info run of
          Inr (Some info) \<Rightarrow>
            py_get (i_id info) = vid
        | _ \<Rightarrow> vid = None \<and> reg' = reg)"
proof (cases "extract_info run")
  case (Inl e)
  with assms show ?thesis by (simp add: download_try_def)
next
  case (Inr info')
  show ?thesis
  proof (cases info')
    case None
    with Inr assms show ?thesis by (simp add: download_try_def)
  next
    case (Some info)
    show ?thesis
    proof (cases "py_get (i_id info)")
      case None
      with Inr Some assms show ?thesis by (simp add: download_try_def)
    next
      case v: (Some v)
      show ?thesis
      proof (cases "v = []")
        case True
        with Inr Some v assms show ?thesis by (simp add: download_try_def)
      next
        case False
        let ?registered = "case callback of None \<Rightarrow> reg | Some cb \<Rightarrow> reg(v \<mapsto> cb)"
        obtain s r where h: "run_hooks ?registered (hook_events run) = (s, r)"
          by (rule run_hooks_cases)
        from Inr Some v False h assms have "vid = Some v" "reg' = ?registered"
          by (auto simp: download_try_def Let_def split: option.splits)
        with Inr Some v show ?thesis by (auto split: option.splits)
      qed
    qed
  qed
qed

text \<open>A hook call for an identifier that the registry does not hold.\<close>

lemma progress_hook_unregistered:
  "hook_video_id d = Some v \<Longrightarrow> reg v = None \<Longrightarrow> progress_hook reg d = ([], None)"
  by (simp add: progress_hook_def)

text \<open>
  C3. However \<open>download_video\<close> ends, the registry then holds no entry for the identifier
  that the metadata resolved to, and the entry of every other identifier is as before; a hook call
  for an identifier that the registry does not hold (never registered, or removed) hands nothing
  to any callback and does not raise, and the hook never writes the registry.
\<close>

theorem callback_removed_on_every_exit:
  "(\<forall>info v. extract_info (ydl (download_opts dir fid audio st en) url) = Inr (Some info)
        \<and> py_get (i_id info) = Some v \<and> v \<noteq> []
      \<longrightarrow> callbacks_after (download_video dir reg ydl url fid audio st en callback) v = None)
   \<and> (\<forall>k. (\<forall>info. extract_info (ydl (download_opts dir fid audio st en) url) = Inr (Some info)
                \<longrightarrow> py_get (i_id info) \<noteq> Some k)
      \<longrightarrow> callbacks_after (download_video dir reg ydl url fid audio st en callback) k = reg k)
   \<and> (\<forall>d v. hook_video_id d = Some v
          \<and> callbacks_after (download_video dir reg ydl url fid audio st en callback) v = None
      \<longrightarrow> progress_hook
            (callbacks_after (download_video dir reg ydl url fid audio st en callback)) d
          = ([], None))"
proof -
  let ?run = "ydl (download_opts dir fid audio st en) url"
  let ?r = "download_video dir reg ydl url fid audio st en callback"
  obtain outcome vid reg' sent where t: "download_try reg ?run callback = (outcome, vid, reg', sent)"
    by (cases "download_try reg ?run callback") auto
  note f = download_try_registry [OF t]
  have after: "callbacks_after ?r
      = (case vid of None \<Rightarrow> reg'
         | Some v \<Rightarrow> if v = [] then reg'
                     else (case reg' v of None \<Rightarrow> reg' | Some cb \<Rightarrow> reg'(v := None)))"
    by (simp add: download_video_def t)
  have 1: "callbacks_after ?r v = None"
    if "extract_info ?run = Inr (Some info)" "py_get (i_id info) = Some v" "v \<noteq> []" for info v
  proof -
    from f that(1,2) have "vid = Some v" by simp
    with that(3) show ?thesis by (simp add: after split: option.splits)
  qed
  have 2: "callbacks_after ?r k = reg k"
    if "\<forall>info. extract_info ?run = Inr (Some info) \<longrightarrow> py_get (i_id info) \<noteq> Some k" for k
  proof -
    have other: "vid \<noteq> Some k"
      using f that by (auto split: sum.splits option.splits)
    with f have "reg' k = reg k" by simp
    with other show ?thesis by (auto simp: after split: option.splits)
  qed
  have 3: "progress_hook (callbacks_after ?r) d = ([], None)"
    if "hook_video_id d = Some v" "callbacks_after ?r v = None" for d v
    using that by (rule progress_hook_unregistered)
  from 1 2 3 show ?thesis by blast
qed

lemma download_opts_sample:
  "extract_info (failing_ydl opts url) = Inr (Some sample_info)"
  "py_get (i_id sample_info) = Some ''abc''"
  by (simp_all add: failing_ydl_def sample_info_def empty_info_def)

theorem callback_removed_on_every_exit_witness:
  "extract_info (failing_ydl (download_opts ''/dl'' None False None None) ''u'')
     = Inr (Some sample_info)
   \<and> py_get (i_id sample_info) = Some ''abc'' \<and> ''abc'' \<noteq> []
   \<and> returned (download_video ''/dl'' Map.empty failing_ydl ''u'' None False None None
        (Some quiet_callback))
       = Inl (ErrorDownloading (ToolError ''network unreachable''))
   \<and> callbacks_after (download_video ''/dl'' Map.empty failing_ydl ''u'' None False None None
        (Some quiet_callback)) ''abc'' = None
   \<and> hook_video_id (finished_event ''final.mp4'') = Some ''abc''
   \<and> progress_hook
        (callbacks_after (download_video ''/dl'' Map.empty failing_ydl ''u'' None False None None
           (Some quiet_callback)))
        (finished_event ''final.mp4'')
       = ([], None)"
proof -
  let ?r = "download_video ''/dl'' Map.empty failing_ydl ''u'' None False None None
              (Some quiet_callback)"
  note inst = callback_removed_on_every_exit
    [of failing_ydl "''/dl''" None False None None "''u''" Map.empty "Some quiet_callback"]
  have a: "extract_info (failing_ydl (download_opts ''/dl'' None False None None) ''u'')
             = Inr (Some sample_info)"
    by (rule download_opts_sample)
  have b: "py_get (i_id sample_info) = Some ''abc''" by (rule download_opts_sample)
  have c: "''abc'' \<noteq> []" by simp
  from inst a b c have gone: "callbacks_after ?r ''abc'' = None" by blast
  have h: "hook_video_id (finished_event ''final.mp4'') = Some ''abc''"
    by (rule hook_video_id_sample)
  from inst h gone have stray: "progress_hook (callbacks_after ?r) (finished_event ''final.mp4'')
      = ([], None)" by blast
  have "run_hooks (Map.empty(''abc'' \<mapsto> quiet_callback)) sample_events
     = ([downloading_progress 10, downloading_progress 55, downloading_progress 90,
         finished_progress ''final.mp4''], None)"
    using run_hooks_sample by (simp add: registry_with_def)
  then have ret: "returned ?r = Inl (ErrorDownloading (ToolError ''network unreachable''))"
    by (simp add: download_video_def download_try_def failing_ydl_def sample_info_def
        empty_info_def)
  from a b c ret gone h stray show ?thesis by blast
qed

section \<open>Facts about \<open>get_playlist_info\<close>\<close>

lemma VideoInfo_init_index:
  "VideoInfo_init i t d th fs w de vc up idx = Inr v \<Longrightarrow> v_playlist_index v = idx \<and> Some (v_formats v) = fs"
  by (auto simp: VideoInfo_init_def split: option.splits)

text \<open>
  The loop numbers the entries as \<open>enumerate\<close> does: the videos it collects carry the
  positions of the entries that are not empty, empty entries counted, and no formats.
\<close>

lemma playlist_entries_positions:
  "playlist_entries acc (int n) es = Inr vs \<Longrightarrow>
   map v_playlist_index vs
     = map v_playlist_index acc
       @ map (\<lambda>(i, e). Some (int i)) (filter (\<lambda>(i, e). e \<noteq> None) (enumerate n es))"
proof (induction es arbitrary: acc n)
  case Nil
  then show ?case by simp
next
  case (Cons e es)
  have suc: "int n + 1 = int (Suc n)" by simp
  show ?case
  proof (cases e)
    case None
    with Cons.prems have "playlist_entries acc (int (Suc n)) es = Inr vs"
      by (simp add: suc del: of_nat_Suc)
    from Cons.IH [OF this] None show ?thesis by simp
  next
    case (Some entry)
    with Cons.prems obtain i v where
      v: "VideoInfo_init i (py_get (e_title entry)) (py_get (e_duration entry))
            (py_get (e_thumbnail entry)) (Some []) (py_get (e_webpage_url entry))
            None None (py_get (e_uploader entry)) (Some (int n)) = Inr v"
      and rest: "playlist_entries (acc @ [v]) (int (Suc n)) es = Inr vs"
      by (auto simp add: suc simp del: of_nat_Suc split: sum.splits)
    from VideoInfo_init_index [OF v] have "v_playlist_index v = Some (int n)" by simp
    with Cons.IH [OF rest] Some show ?thesis by simp
  qed
qed

lemma PlaylistInfo_init_without_count:
  "PlaylistInfo_init i t u None vs w = Inl ValidationError"
  by (simp add: PlaylistInfo_init_def split: option.splits)

text \<open>Whatever the extractor answers, \<open>get_playlist_info\<close> raises.\<close>

lemma get_playlist_info_raises: "\<exists>e. get_playlist_info fetched = Inl e"
  by (auto simp: get_playlist_info_def PlaylistInfo_init_without_count
      split: sum.splits option.splits field.splits if_splits)

lemma entry_video:
  "VideoInfo_init (Some name) (py_get (e_title (entry_at name)))
     (py_get (e_duration (entry_at name))) (py_get (e_thumbnail (entry_at name))) (Some [])
     (py_get (e_webpage_url (entry_at name))) None None (py_get (e_uploader (entry_at name)))
     (Some idx) = Inr (video_at name idx)"
  "py_index (e_id (entry_at name)) = Inr (Some name)"
  by (simp_all add: VideoInfo_init_def entry_at_def video_at_def)

lemma playlist_entries_seven:
  "playlist_entries [] 1 seven_entries
     = Inr [video_at ''v1'' 1, video_at ''v3'' 3, video_at ''v4'' 4, video_at ''v6'' 6,
            video_at ''v7'' 7]"
  by (simp add: seven_entries_def entry_video)

lemma playlist_entries_five: "playlist_entries [] 1 five_entries = Inr five_videos"
  by (simp add: five_entries_def five_videos_def entry_video)

text \<open>
  C2 at a playlist of seven entries of which the second and the fifth are empty: the loop
  collects five videos with the indices 1, 3, 4, 6, 7 and no formats, and the function then
  raises \<open>ValidationError\<close>, because the constructor call does not pass \<open>video_count\<close>.
\<close>

theorem get_playlist_info_seven_entries:
  "map_sum id (map (\<lambda>v. (v_id v, v_formats v, v_playlist_index v)))
       (playlist_entries [] 1 seven_entries)
     = Inr [(''v1'', [], Some 1), (''v3'', [], Some 3), (''v4'', [], Some 4),
            (''v6'', [], Some 6), (''v7'', [], Some 7)]
   \<and> get_playlist_info (Inr (Some (playlist_of seven_entries))) = Inl ValidationError"
  by (simp add: playlist_entries_seven get_playlist_info_def playlist_of_def
      playlist_is_empty_def PlaylistInfo_init_without_count video_at_def)

section \<open>Facts about \<open>batch_download_playlist\<close>\<close>

lemma BatchDownloadProgress_init_without_status:
  "BatchDownloadProgress_init None n c cv fv pt = Inl ValidationError"
  by (simp add: BatchDownloadProgress_init_def)

text \<open>
  The first statement of the loop body assigns to \<open>current_video_title\<close>, which is no field:
  every pass ends there, in the handler, with nothing changed.
\<close>

lemma batch_try_raises: "batch_try dir ydl fid cb video s = (Some ValueError, s)"
  by (simp add: batch_try_def pydantic_setattr_def BatchDownloadProgress_fields_def)

lemma batch_loop_changes_nothing: "batch_loop dir ydl fid cb s videos = Inr s"
  by (induction videos) (simp_all add: batch_try_raises)

text \<open>The call of \<open>download_video\<close> in the loop body could not bind its keywords either.\<close>

lemma download_call_unbound:
  "bind_keywords download_video_params [''format_id'', ''progress_hooks''] = Inl TypeError"
  by (simp add: bind_keywords_def download_video_params_def)

lemma batch_after_fetch_raises:
  "batch_after_fetch dir reg ydl fid cb playlist_info = Inl ValidationError"
  by (simp add: batch_after_fetch_def BatchDownloadProgress_init_without_status)

lemma batch_download_playlist_raises:
  "\<exists>e. batch_download_playlist dir reg ydl fetched fid cb = Inl e"
proof -
  from get_playlist_info_raises obtain e where "get_playlist_info fetched = Inl e" ..
  then show ?thesis by (simp add: batch_download_playlist_def)
qed

text \<open>
  C1 at a playlist of five entries of which the download of the third fails. The function
  raises \<open>ValidationError\<close> in the metadata fetch; handed the fetched playlist, the rest of the
  function raises \<open>ValidationError\<close> where it builds the progress object; and handed a progress
  object, the loop returns with no file downloaded, no video completed and no failure recorded.
\<close>

theorem batch_download_five_items:
  "batch_download_playlist ''/dl'' Map.empty third_fails_ydl
       (Inr (Some (playlist_of five_entries))) None None
     = Inl ValidationError
   \<and> batch_after_fetch ''/dl'' Map.empty third_fails_ydl None None five_info
     = Inl ValidationError
   \<and> map_sum id (\<lambda>s. (downloaded_files s, completed_videos (batch_progress s),
                       failed_videos (batch_progress s)))
       (batch_loop ''/dl'' third_fails_ydl None None five_state (pl_videos five_info))
     = Inr ([], 0, [])"
  by (simp add: batch_download_playlist_def get_playlist_info_def playlist_of_def
      playlist_is_empty_def playlist_entries_five PlaylistInfo_init_without_count batch_after_fetch_raises
      batch_loop_changes_nothing five_state_def)

end
